theory Spec2Isabelle
  imports Complex_Main
begin

section \<open>Synthetic communal accounts of New Caledonia (NCom.py)\<close>

text \<open>
  The class \<open>NouvelleCaledonieCommuneFinanceAnalyzer\<close> resolves a configuration for a
  commune name, generates one list of values per column over the years
  \<open>start_year .. end_year\<close>, assembles them into a table and then rewrites some cells in
  \<open>_add_municipal_trends\<close>.

  Conventions of the embedding:
  \<^item> Python floats are idealised as exact reals; rounding is not modelled.
  \<^item> A Python string is the list of the bytes of its UTF-8 encoding, so an accented
    letter of a commune name is two bytes. Equality of strings is equality of encodings.
  \<^item> Each call \<open>np.random.normal(1, sd)\<close> is represented by the value it returned: the
    generators take the noise factors as an argument, indexed by column and row. Noise
    with standard deviation 0 is the factor 1 everywhere.
  \<^item> A date of the yearly range is represented by its year.
\<close>

subsection \<open>Configuration\<close>

record commune_config =
  population_base :: real
  budget_base :: real
  type_commune :: string
  specialites :: "string list"

datatype py_error = KeyError

definition configs :: "(string \<times> commune_config) list" where
  "configs =
    [(''Noum'' @ [CHR 0xC3, CHR 0xA9] @ ''a'',
        \<lparr>population_base = 100000, budget_base = 180, type_commune = ''urbaine'',
         specialites = [''administration'', ''commerce'', ''tourisme'', ''port'', ''services'']\<rparr>),
     (''Mont-Dore'',
        \<lparr>population_base = 28000, budget_base = 75, type_commune = ''periurbaine'',
         specialites = [''tourisme'', ''nature'', ''agriculture'', ''reservoir_eau'']\<rparr>),
     (''Dumb'' @ [CHR 0xC3, CHR 0xA9] @ ''a'',
        \<lparr>population_base = 35000, budget_base = 85, type_commune = ''periurbaine'',
         specialites = [''zones_activites'', ''commerce'', ''services'', ''education'']\<rparr>),
     (''Pa'' @ [CHR 0xC3, CHR 0xAF] @ ''ta'',
        \<lparr>population_base = 25000, budget_base = 70, type_commune = ''periurbaine'',
         specialites = [''aeroport'', ''logistique'', ''commerce'', ''agriculture'']\<rparr>),
     (''Kon'' @ [CHR 0xC3, CHR 0xA9],
        \<lparr>population_base = 8000, budget_base = 50, type_commune = ''rurale'',
         specialites = [''administration_nord'', ''mine'', ''agriculture'', ''elevage'']\<rparr>),
     (''Bourail'',
        \<lparr>population_base = 5500, budget_base = 45, type_commune = ''rurale'',
         specialites = [''agriculture'', ''elevage'', ''tourisme'', ''culture'']\<rparr>),
     (''La Foa'',
        \<lparr>population_base = 3500, budget_base = 40, type_commune = ''rurale'',
         specialites = [''agriculture'', ''culture'', ''tourisme'', ''histoire'']\<rparr>),
     (''Poindimi'' @ [CHR 0xC3, CHR 0xA9],
        \<lparr>population_base = 5000, budget_base = 42, type_commune = ''cotiere'',
         specialites = [''agriculture'', ''peche'', ''tourisme'', ''culture_kanak'']\<rparr>),
     ([CHR 0xC3, CHR 0x8E] @ ''le des Pins'',
        \<lparr>population_base = 2000, budget_base = 35, type_commune = ''insulaire'',
         specialites = [''tourisme'', ''plages'', ''culture'', ''preservation'']\<rparr>),
     (''default'',
        \<lparr>population_base = 3000, budget_base = 30, type_commune = ''rurale'',
         specialites = [''agriculture'', ''petit_commerce'', ''services_locaux'']\<rparr>)]"

text \<open>
  \<open>configs.get(self.commune, configs["default"])\<close>: the subscript \<open>configs["default"]\<close> is
  evaluated first and raises \<open>KeyError\<close> on a missing key; \<open>get\<close> never raises.
\<close>

definition get_commune_config :: "string \<Rightarrow> py_error + commune_config" where
  "get_commune_config commune =
     (case map_of configs ''default'' of
        None \<Rightarrow> Inl KeyError
      | Some d \<Rightarrow> Inr (case map_of configs commune of None \<Rightarrow> d | Some c \<Rightarrow> c))"

record analyzer =
  commune :: string
  start_year :: int
  end_year :: int
  config :: commune_config

definition init :: "string \<Rightarrow> py_error + analyzer" where
  "init commune_name =
     (case get_commune_config commune_name of
        Inl e \<Rightarrow> Inl e
      | Inr c \<Rightarrow> Inr \<lparr>commune = commune_name, start_year = 2002, end_year = 2025, config = c\<rparr>)"

subsection \<open>The table\<close>

datatype column =
    Annee | Population | Menages
  | Recettes_Totales | Impots_Locaux | Dotations_Etat | Dotations_Territoriales | Autres_Recettes
  | Depenses_Totales | Fonctionnement | Investissement | Charge_Dette | Personnel
  | Epargne_Brute | Dette_Totale | Taux_Endettement | Taux_Fiscalite
  | Investissement_Agriculture | Investissement_Tourisme | Investissement_Transport
  | Investissement_Education | Investissement_Environnement | Investissement_Culture
  | Investissement_Mine

type_synonym row = "column \<Rightarrow> real"
type_synonym table = "row list"
type_synonym noise = "column \<Rightarrow> nat \<Rightarrow> real"

text \<open>\<open>df.loc[i, c]\<close>, the entry of column \<open>c\<close> in the row at index \<open>i\<close>.\<close>

abbreviation cell :: "table \<Rightarrow> nat \<Rightarrow> column \<Rightarrow> real" where
  "cell df i c \<equiv> (df ! i) c"

text \<open>
  \<open>pd.date_range(start='S-01-01', end='E-12-31', freq='Y')\<close>: the year ends from S to E,
  one per year, ascending; only \<open>date.year\<close> is ever read.
\<close>

definition date_range :: "int \<Rightarrow> int \<Rightarrow> int list" where
  "date_range s e = [s..e]"

text \<open>\<open>pd.DataFrame(data)\<close>: row \<open>i\<close> holds the \<open>i\<close>-th entry of every column list.\<close>

definition DataFrame :: "(column \<Rightarrow> real list) \<Rightarrow> table" where
  "DataFrame data = map (\<lambda>i c. data c ! i) [0..<length (data Annee)]"

subsection \<open>Per-column generators\<close>

definition simulate_population :: "commune_config \<Rightarrow> int list \<Rightarrow> real list" where
  "simulate_population cfg dates =
     (let base_population = population_base cfg in
      map (\<lambda>(i, date).
            let growth_rate =
                  (if type_commune cfg = ''urbaine'' then 0.018
                   else if type_commune cfg = ''periurbaine'' then 0.022
                   else if type_commune cfg = ''insulaire'' then 0.015
                   else 0.012);
                growth = 1 + growth_rate * real i
            in base_population * growth)
          (enumerate 0 dates))"

definition simulate_households :: "commune_config \<Rightarrow> int list \<Rightarrow> real list" where
  "simulate_households cfg dates =
     (let base_households = population_base cfg / 2.7 in
      map (\<lambda>(i, date).
            let growth = 1 + 0.015 * real i
            in base_households * growth)
          (enumerate 0 dates))"

definition simulate_total_revenue :: "commune_config \<Rightarrow> (nat \<Rightarrow> real) \<Rightarrow> int list \<Rightarrow> real list" where
  "simulate_total_revenue cfg normal dates =
     (let base_revenue = budget_base cfg in
      map (\<lambda>(i, date).
            let growth_rate =
                  (if type_commune cfg = ''urbaine'' then 0.038
                   else if type_commune cfg = ''periurbaine'' then 0.042
                   else if type_commune cfg = ''insulaire'' then 0.035
                   else 0.032);
                growth = 1 + growth_rate * real i;
                noise = normal i
            in base_revenue * growth * noise)
          (enumerate 0 dates))"

definition simulate_tax_revenue :: "commune_config \<Rightarrow> (nat \<Rightarrow> real) \<Rightarrow> int list \<Rightarrow> real list" where
  "simulate_tax_revenue cfg normal dates =
     (let base_tax = budget_base cfg * 0.45 in
      map (\<lambda>(i, date).
            let growth = 1 + 0.028 * real i;
                noise = normal i
            in base_tax * growth * noise)
          (enumerate 0 dates))"

definition simulate_state_grants :: "commune_config \<Rightarrow> (nat \<Rightarrow> real) \<Rightarrow> int list \<Rightarrow> real list" where
  "simulate_state_grants cfg normal dates =
     (let base_grants = budget_base cfg * 0.25 in
      map (\<lambda>(i, date).
            let year = date;
                increase = (if year \<ge> 2010 then 1 + 0.01 * real_of_int (year - 2010) else 1);
                noise = normal i
            in base_grants * increase * noise)
          (enumerate 0 dates))"

definition simulate_territorial_grants :: "commune_config \<Rightarrow> (nat \<Rightarrow> real) \<Rightarrow> int list \<Rightarrow> real list" where
  "simulate_territorial_grants cfg normal dates =
     (let base_grants = budget_base cfg * 0.15 in
      map (\<lambda>(i, date).
            let year = date;
                increase = (if year \<ge> 2000 then 1 + 0.012 * real_of_int (year - 2000) else 1);
                noise = normal i
            in base_grants * increase * noise)
          (enumerate 0 dates))"

definition simulate_other_revenue :: "commune_config \<Rightarrow> (nat \<Rightarrow> real) \<Rightarrow> int list \<Rightarrow> real list" where
  "simulate_other_revenue cfg normal dates =
     (let base_other = budget_base cfg * 0.15 in
      map (\<lambda>(i, date).
            let growth = 1 + 0.026 * real i;
                noise = normal i
            in base_other * growth * noise)
          (enumerate 0 dates))"

definition simulate_total_expenses :: "commune_config \<Rightarrow> (nat \<Rightarrow> real) \<Rightarrow> int list \<Rightarrow> real list" where
  "simulate_total_expenses cfg normal dates =
     (let base_expenses = budget_base cfg * 0.95 in
      map (\<lambda>(i, date).
            let growth = 1 + 0.032 * real i;
                noise = normal i
            in base_expenses * growth * noise)
          (enumerate 0 dates))"

definition simulate_operating_expenses :: "commune_config \<Rightarrow> (nat \<Rightarrow> real) \<Rightarrow> int list \<Rightarrow> real list" where
  "simulate_operating_expenses cfg normal dates =
     (let base_operating = budget_base cfg * 0.60 in
      map (\<lambda>(i, date).
            let growth = 1 + 0.026 * real i;
                noise = normal i
            in base_operating * growth * noise)
          (enumerate 0 dates))"

definition simulate_investment_expenses :: "commune_config \<Rightarrow> (nat \<Rightarrow> real) \<Rightarrow> int list \<Rightarrow> real list" where
  "simulate_investment_expenses cfg normal dates =
     (let base_investment = budget_base cfg * 0.35 in
      map (\<lambda>(i, date).
            let year = date;
                multiplier =
                  (if year \<in> set [2006, 2012, 2018, 2023] then 1.7
                   else if year \<in> set [2008, 2014, 2020] then 0.78
                   else 1.0);
                growth = 1 + 0.024 * real i;
                noise = normal i
            in base_investment * growth * multiplier * noise)
          (enumerate 0 dates))"

definition simulate_debt_charges :: "commune_config \<Rightarrow> (nat \<Rightarrow> real) \<Rightarrow> int list \<Rightarrow> real list" where
  "simulate_debt_charges cfg normal dates =
     (let base_debt_charge = budget_base cfg * 0.05 in
      map (\<lambda>(i, date).
            let year = date;
                increase = (if year \<ge> 2005 then 1 + 0.009 * real_of_int (year - 2005) else 1);
                noise = normal i
            in base_debt_charge * increase * noise)
          (enumerate 0 dates))"

definition simulate_staff_costs :: "commune_config \<Rightarrow> (nat \<Rightarrow> real) \<Rightarrow> int list \<Rightarrow> real list" where
  "simulate_staff_costs cfg normal dates =
     (let base_staff = budget_base cfg * 0.40 in
      map (\<lambda>(i, date).
            let growth = 1 + 0.027 * real i;
                noise = normal i
            in base_staff * growth * noise)
          (enumerate 0 dates))"

definition simulate_gross_savings :: "commune_config \<Rightarrow> (nat \<Rightarrow> real) \<Rightarrow> int list \<Rightarrow> real list" where
  "simulate_gross_savings cfg normal dates =
     map (\<lambda>(i, date).
           let base_saving = budget_base cfg * 0.05;
               year = date;
               improvement = (if year \<ge> 2010 then 1 + 0.01 * real_of_int (year - 2010) else 1);
               noise = normal i
           in base_saving * improvement * noise)
         (enumerate 0 dates)"

definition simulate_total_debt :: "commune_config \<Rightarrow> (nat \<Rightarrow> real) \<Rightarrow> int list \<Rightarrow> real list" where
  "simulate_total_debt cfg normal dates =
     (let base_debt = budget_base cfg * 0.65 in
      map (\<lambda>(i, date).
            let year = date;
                change =
                  (if year \<in> set [2006, 2012, 2018, 2023] then 1.25
                   else if year \<in> set [2009, 2015, 2021] then 0.9
                   else 1.0);
                noise = normal i
            in base_debt * change * noise)
          (enumerate 0 dates))"

definition simulate_debt_ratio :: "commune_config \<Rightarrow> (nat \<Rightarrow> real) \<Rightarrow> int list \<Rightarrow> real list" where
  "simulate_debt_ratio cfg normal dates =
     map (\<lambda>(i, date).
           let base_ratio = 0.60;
               year = date;
               improvement = (if year \<ge> 2010 then 1 - 0.012 * real_of_int (year - 2010) else 1);
               noise = normal i
           in base_ratio * improvement * noise)
         (enumerate 0 dates)"

definition simulate_tax_rate :: "commune_config \<Rightarrow> (nat \<Rightarrow> real) \<Rightarrow> int list \<Rightarrow> real list" where
  "simulate_tax_rate cfg normal dates =
     map (\<lambda>(i, date).
           let base_rate = 0.95;
               year = date;
               increase = (if year \<ge> 2010 then 1 + 0.004 * real_of_int (year - 2010) else 1);
               noise = normal i
           in base_rate * increase * noise)
         (enumerate 0 dates)"

definition simulate_agriculture_investment :: "commune_config \<Rightarrow> (nat \<Rightarrow> real) \<Rightarrow> int list \<Rightarrow> real list" where
  "simulate_agriculture_investment cfg normal dates =
     (let base_investment = budget_base cfg * 0.05;
          multiplier = (if ''agriculture'' \<in> set (specialites cfg) then 1.4 else 0.8) in
      map (\<lambda>(i, date).
            let year = date;
                year_multiplier = (if year \<in> set [2005, 2010, 2015, 2020] then 1.9 else 1.0);
                growth = 1 + 0.03 * real i;
                noise = normal i
            in base_investment * growth * year_multiplier * multiplier * noise)
          (enumerate 0 dates))"

definition simulate_tourism_investment :: "commune_config \<Rightarrow> (nat \<Rightarrow> real) \<Rightarrow> int list \<Rightarrow> real list" where
  "simulate_tourism_investment cfg normal dates =
     (let base_investment = budget_base cfg * 0.06;
          multiplier = (if ''tourisme'' \<in> set (specialites cfg) then 1.7 else 0.7) in
      map (\<lambda>(i, date).
            let year = date;
                year_multiplier = (if year \<in> set [2007, 2013, 2019, 2024] then 1.9 else 1.0);
                growth = 1 + 0.035 * real i;
                noise = normal i
            in base_investment * growth * year_multiplier * multiplier * noise)
          (enumerate 0 dates))"

definition simulate_transport_investment :: "commune_config \<Rightarrow> (nat \<Rightarrow> real) \<Rightarrow> int list \<Rightarrow> real list" where
  "simulate_transport_investment cfg normal dates =
     (let base_investment = budget_base cfg * 0.04;
          multiplier = (if ''transport'' \<in> set (specialites cfg) then 1.5 else 0.9) in
      map (\<lambda>(i, date).
            let year = date;
                year_multiplier = (if year \<in> set [2006, 2012, 2018, 2023] then 1.8 else 1.0);
                growth = 1 + 0.027 * real i;
                noise = normal i
            in base_investment * growth * year_multiplier * multiplier * noise)
          (enumerate 0 dates))"

definition simulate_education_investment :: "commune_config \<Rightarrow> (nat \<Rightarrow> real) \<Rightarrow> int list \<Rightarrow> real list" where
  "simulate_education_investment cfg normal dates =
     (let base_investment = budget_base cfg * 0.05;
          multiplier = (if ''education'' \<in> set (specialites cfg) then 1.4 else 0.9) in
      map (\<lambda>(i, date).
            let year = date;
                year_multiplier = (if year \<in> set [2008, 2014, 2020] then 1.7 else 1.0);
                growth = 1 + 0.028 * real i;
                noise = normal i
            in base_investment * growth * year_multiplier * multiplier * noise)
          (enumerate 0 dates))"

definition simulate_environment_investment :: "commune_config \<Rightarrow> (nat \<Rightarrow> real) \<Rightarrow> int list \<Rightarrow> real list" where
  "simulate_environment_investment cfg normal dates =
     (let base_investment = budget_base cfg * 0.04;
          multiplier = (if ''environnement'' \<in> set (specialites cfg) then 1.5 else 0.8) in
      map (\<lambda>(i, date).
            let year = date;
                year_multiplier = (if year \<in> set [2009, 2015, 2021] then 2.0 else 1.0);
                growth = 1 + 0.032 * real i;
                noise = normal i
            in base_investment * growth * year_multiplier * multiplier * noise)
          (enumerate 0 dates))"

definition simulate_culture_investment :: "commune_config \<Rightarrow> (nat \<Rightarrow> real) \<Rightarrow> int list \<Rightarrow> real list" where
  "simulate_culture_investment cfg normal dates =
     (let base_investment = budget_base cfg * 0.03;
          multiplier = (if ''culture'' \<in> set (specialites cfg) then 1.6 else 0.7) in
      map (\<lambda>(i, date).
            let year = date;
                year_multiplier = (if year \<in> set [2010, 2016, 2022] then 1.8 else 1.0);
                growth = 1 + 0.026 * real i;
                noise = normal i
            in base_investment * growth * year_multiplier * multiplier * noise)
          (enumerate 0 dates))"

definition simulate_mining_investment :: "commune_config \<Rightarrow> (nat \<Rightarrow> real) \<Rightarrow> int list \<Rightarrow> real list" where
  "simulate_mining_investment cfg normal dates =
     (let base_investment = budget_base cfg * 0.04;
          multiplier = (if ''mine'' \<in> set (specialites cfg) then 1.8 else 0.6) in
      map (\<lambda>(i, date).
            let year = date;
                year_multiplier = (if year \<in> set [2007, 2013, 2019, 2024] then 2.1 else 1.0);
                growth = 1 + 0.038 * real i;
                noise = normal i
            in base_investment * growth * year_multiplier * multiplier * noise)
          (enumerate 0 dates))"

subsection \<open>The event-adjustment pass\<close>

text \<open>\<open>df.loc[i, c] *= k\<close> on the row at index \<open>i\<close>.\<close>

definition scale :: "row \<Rightarrow> column \<Rightarrow> real \<Rightarrow> row" where
  "scale r c k = r(c := r c * k)"

text \<open>
  The body of the loop of \<open>_add_municipal_trends\<close> for one row. The year is read once, from
  the row as it was when the iteration started; the blocks follow the source's order, the
  second one with its \<open>elif\<close>.
\<close>

definition trends_row :: "row \<Rightarrow> row" where
  "trends_row row0 =
     (let year = row0 Annee;
          r1 = (if 2002 \<le> year \<and> year \<le> 2005
                then scale (scale row0 Investissement_Agriculture 1.5) Investissement_Tourisme 1.4
                else row0);
          r2 = (if 2008 \<le> year \<and> year \<le> 2009
                then scale (scale (scale r1 Recettes_Totales 0.94) Investissement 0.85) Autres_Recettes 0.88
                else if 2010 \<le> year \<and> year \<le> 2014
                then scale (scale r1 Investissement_Mine 1.5) Dotations_Territoriales 1.3
                else r1);
          r3 = (if year \<ge> 2010
                then (let institutional_growth = 1 + 0.015 * (year - 2010)
                      in scale r2 Dotations_Etat institutional_growth)
                else r2);
          r4 = (if 2020 \<le> year \<and> year \<le> 2021
                then (if year = 2020
                      then scale (scale r3 Autres_Recettes 0.75) Investissement_Tourisme 0.88
                      else r3)
                else r3);
          r5 = (if year \<ge> 2010
                then (let environment_growth = 1 + 0.034 * (year - 2010)
                      in scale r4 Investissement_Environnement environment_growth)
                else r4);
          r6 = (if year \<ge> 2022
                then scale (scale (scale r5 Investissement 1.15) Investissement_Tourisme 1.2)
                       Investissement_Mine 1.18
                else r5)
      in r6)"

text \<open>\<open>for i, row in df.iterrows()\<close>: the rows are visited by index and rewritten in place.\<close>

fun trends_loop :: "nat list \<Rightarrow> table \<Rightarrow> table" where
  "trends_loop [] df = df"
| "trends_loop (i # rest) df = trends_loop rest (df[i := trends_row (df ! i)])"

definition add_municipal_trends :: "table \<Rightarrow> table" where
  "add_municipal_trends df = trends_loop [0..<length df] df"

subsection \<open>Table generation\<close>

text \<open>The dictionary \<open>data\<close> of \<open>generate_financial_data\<close>, one list per column.\<close>

definition build_data :: "analyzer \<Rightarrow> noise \<Rightarrow> column \<Rightarrow> real list" where
  "build_data self nz c =
     (let dates = date_range (start_year self) (end_year self); cfg = config self in
      case c of
        Annee \<Rightarrow> map real_of_int dates
      | Population \<Rightarrow> simulate_population cfg dates
      | Menages \<Rightarrow> simulate_households cfg dates
      | Recettes_Totales \<Rightarrow> simulate_total_revenue cfg (nz Recettes_Totales) dates
      | Impots_Locaux \<Rightarrow> simulate_tax_revenue cfg (nz Impots_Locaux) dates
      | Dotations_Etat \<Rightarrow> simulate_state_grants cfg (nz Dotations_Etat) dates
      | Dotations_Territoriales \<Rightarrow> simulate_territorial_grants cfg (nz Dotations_Territoriales) dates
      | Autres_Recettes \<Rightarrow> simulate_other_revenue cfg (nz Autres_Recettes) dates
      | Depenses_Totales \<Rightarrow> simulate_total_expenses cfg (nz Depenses_Totales) dates
      | Fonctionnement \<Rightarrow> simulate_operating_expenses cfg (nz Fonctionnement) dates
      | Investissement \<Rightarrow> simulate_investment_expenses cfg (nz Investissement) dates
      | Charge_Dette \<Rightarrow> simulate_debt_charges cfg (nz Charge_Dette) dates
      | Personnel \<Rightarrow> simulate_staff_costs cfg (nz Personnel) dates
      | Epargne_Brute \<Rightarrow> simulate_gross_savings cfg (nz Epargne_Brute) dates
      | Dette_Totale \<Rightarrow> simulate_total_debt cfg (nz Dette_Totale) dates
      | Taux_Endettement \<Rightarrow> simulate_debt_ratio cfg (nz Taux_Endettement) dates
      | Taux_Fiscalite \<Rightarrow> simulate_tax_rate cfg (nz Taux_Fiscalite) dates
      | Investissement_Agriculture \<Rightarrow> simulate_agriculture_investment cfg (nz Investissement_Agriculture) dates
      | Investissement_Tourisme \<Rightarrow> simulate_tourism_investment cfg (nz Investissement_Tourisme) dates
      | Investissement_Transport \<Rightarrow> simulate_transport_investment cfg (nz Investissement_Transport) dates
      | Investissement_Education \<Rightarrow> simulate_education_investment cfg (nz Investissement_Education) dates
      | Investissement_Environnement \<Rightarrow> simulate_environment_investment cfg (nz Investissement_Environnement) dates
      | Investissement_Culture \<Rightarrow> simulate_culture_investment cfg (nz Investissement_Culture) dates
      | Investissement_Mine \<Rightarrow> simulate_mining_investment cfg (nz Investissement_Mine) dates)"

text \<open>The table before the adjustment pass (the local \<open>df\<close> right after \<open>pd.DataFrame(data)\<close>).\<close>

definition raw_table :: "analyzer \<Rightarrow> noise \<Rightarrow> table" where
  "raw_table self nz = DataFrame (build_data self nz)"

definition generate_financial_data :: "analyzer \<Rightarrow> noise \<Rightarrow> table" where
  "generate_financial_data self nz = add_municipal_trends (raw_table self nz)"

text \<open>Noise with standard deviation 0: every draw of \<open>normal(1, 0)\<close> is 1.\<close>

definition no_noise :: noise where
  "no_noise = (\<lambda>c i. 1)"

text \<open>
  The factor by which one application of the pass scales the cell of column \<open>c\<close> in a row
  of the given year: what the loop body makes of a row that holds 1 in every other column.
\<close>

definition trend_multiplier :: "real \<Rightarrow> column \<Rightarrow> real" where
  "trend_multiplier year c = trends_row ((\<lambda>c. 1)(Annee := year)) c"

section \<open>Basic facts\<close>

lemma trends_loop_length: "length (trends_loop is df) = length df"
  by (induction "is" arbitrary: df) simp_all

lemma trends_loop_nth:
  "distinct is \<Longrightarrow> \<forall>i\<in>set is. i < length df \<Longrightarrow> j < length df \<Longrightarrow>
   trends_loop is df ! j = (if j \<in> set is then trends_row (df ! j) else df ! j)"
proof (induction "is" arbitrary: df)
  case Nil
  then show ?case by simp
next
  case (Cons i rest)
  then show ?case by (auto simp: nth_list_update)
qed

lemma add_municipal_trends_map: "add_municipal_trends df = map trends_row df"
  by (rule nth_equalityI) (simp_all add: add_municipal_trends_def trends_loop_length trends_loop_nth)

lemma date_range_length: "length (date_range s e) = nat (e - s + 1)"
  by (simp add: date_range_def)

lemma date_range_nth: "i < nat (e - s + 1) \<Longrightarrow> date_range s e ! i = s + int i"
  by (simp add: date_range_def)

lemma configs_distinct: "distinct (map fst configs)"
  by (simp add: configs_def)

lemma default_present:
  "map_of configs ''default'' =
     Some \<lparr>population_base = 3000, budget_base = 30, type_commune = ''rurale'',
           specialites = [''agriculture'', ''petit_commerce'', ''services_locaux'']\<rparr>"
  by (simp add: configs_def)

lemma DataFrame_length: "length (DataFrame data) = length (data Annee)"
  by (simp add: DataFrame_def)

lemma DataFrame_nth: "i < length (data Annee) \<Longrightarrow> DataFrame data ! i = (\<lambda>c. data c ! i)"
  by (simp add: DataFrame_def)

lemma build_data_Annee: "build_data self nz Annee = map real_of_int (date_range (start_year self) (end_year self))"
  by (simp add: build_data_def)

lemma raw_table_length: "length (raw_table self nz) = nat (end_year self - start_year self + 1)"
  by (simp add: raw_table_def DataFrame_length build_data_Annee date_range_length)

lemma raw_table_nth:
  "i < nat (end_year self - start_year self + 1) \<Longrightarrow> raw_table self nz ! i = (\<lambda>c. build_data self nz c ! i)"
  by (simp add: raw_table_def DataFrame_nth build_data_Annee date_range_length)

lemma raw_table_Annee:
  "i < nat (end_year self - start_year self + 1) \<Longrightarrow> cell (raw_table self nz) i Annee = real_of_int (start_year self + int i)"
  by (simp add: raw_table_nth build_data_Annee date_range_length date_range_nth)

lemma generate_length: "length (generate_financial_data self nz) = nat (end_year self - start_year self + 1)"
  by (simp add: generate_financial_data_def add_municipal_trends_map raw_table_length)

lemma generate_nth:
  "i < nat (end_year self - start_year self + 1) \<Longrightarrow>
   generate_financial_data self nz ! i = trends_row (raw_table self nz ! i)"
  by (simp add: generate_financial_data_def add_municipal_trends_map raw_table_length)

lemma trends_row_Annee: "trends_row r Annee = r Annee"
  by (simp add: trends_row_def scale_def Let_def)

section \<open>The configuration resolver\<close>

text \<open>
  C4. For every commune name present in the table \<open>configs\<close> the resolver returns exactly
  the record stored under that name; for every name that is not present it returns the
  default record (\<open>population_base\<close> 3000, \<open>budget_base\<close> 30, type rurale); and for no input
  string does it raise: the result is always an \<open>Inr\<close>.
\<close>

theorem get_commune_config_resolves:
  "((n, c) \<in> set configs \<longrightarrow> get_commune_config n = Inr c) \<and>
   (n \<notin> fst ` set configs \<longrightarrow>
      get_commune_config n =
        Inr \<lparr>population_base = 3000, budget_base = 30, type_commune = ''rurale'',
             specialites = [''agriculture'', ''petit_commerce'', ''services_locaux'']\<rparr>) \<and>
   (\<exists>r. get_commune_config n = Inr r)"
proof (intro conjI impI)
  assume "(n, c) \<in> set configs"
  then have "map_of configs n = Some c"
    using configs_distinct by (rule_tac map_of_is_SomeI)
  then show "get_commune_config n = Inr c"
    by (simp add: get_commune_config_def default_present)
next
  assume "n \<notin> fst ` set configs"
  then have "map_of configs n = None"
    by (simp add: map_of_eq_None_iff)
  then show "get_commune_config n =
        Inr \<lparr>population_base = 3000, budget_base = 30, type_commune = ''rurale'',
             specialites = [''agriculture'', ''petit_commerce'', ''services_locaux'']\<rparr>"
    by (simp add: get_commune_config_def default_present)
next
  show "\<exists>r. get_commune_config n = Inr r"
    by (simp add: get_commune_config_def default_present split: option.split)
qed

theorem get_commune_config_resolves_witness:
  "get_commune_config (''Kon'' @ [CHR 0xC3, CHR 0xA9]) =
     Inr \<lparr>population_base = 8000, budget_base = 50, type_commune = ''rurale'',
          specialites = [''administration_nord'', ''mine'', ''agriculture'', ''elevage'']\<rparr> \<and>
   get_commune_config ''Thio'' =
     Inr \<lparr>population_base = 3000, budget_base = 30, type_commune = ''rurale'',
          specialites = [''agriculture'', ''petit_commerce'', ''services_locaux'']\<rparr>"
proof -
  have a: "(''Kon'' @ [CHR 0xC3, CHR 0xA9],
       \<lparr>population_base = 8000, budget_base = 50, type_commune = ''rurale'',
          specialites = [''administration_nord'', ''mine'', ''agriculture'', ''elevage'']\<rparr>) \<in> set configs"
    by (simp add: configs_def)
  have b: "''Thio'' \<notin> fst ` set configs"
    by (simp add: configs_def)
  from a b show ?thesis
    using get_commune_config_resolves [of "''Kon'' @ [CHR 0xC3, CHR 0xA9]"
       "\<lparr>population_base = 8000, budget_base = 50, type_commune = ''rurale'',
          specialites = [''administration_nord'', ''mine'', ''agriculture'', ''elevage'']\<rparr>"]
      get_commune_config_resolves [of "''Thio''" undefined]
    by blast
qed

section \<open>Shape of the generated table\<close>

text \<open>
  C5. For the configured range 2002 to 2025 the generated table has exactly
  \<open>end_year - start_year + 1 = 24\<close> rows; the year column starts at \<open>start_year\<close> and
  grows by exactly 1 from each row to the next, so it is the list of the years 2002 to
  2025 in ascending order, one row per year.
\<close>

theorem generate_row_per_year:
  assumes "start_year self = 2002" and "end_year self = 2025"
  shows "int (length (generate_financial_data self nz)) = end_year self - start_year self + 1 \<and>
         length (generate_financial_data self nz) = 24 \<and>
         cell (generate_financial_data self nz) (0) Annee = real_of_int (start_year self) \<and>
         (\<forall>i. Suc i < 24 \<longrightarrow>
            cell (generate_financial_data self nz) (Suc i) Annee = cell (generate_financial_data self nz) (i) Annee + 1) \<and>
         map (\<lambda>r. r Annee) (generate_financial_data self nz) = map real_of_int [2002..2025]"
proof -
  have n: "nat (end_year self - start_year self + 1) = 24"
    using assms by simp
  have cell: "cell (generate_financial_data self nz) (i) Annee = real_of_int (2002 + int i)" if "i < 24" for i
    using that assms n by (simp add: generate_nth trends_row_Annee raw_table_Annee)
  have len: "length (generate_financial_data self nz) = 24"
    using n by (simp add: generate_length)
  have "map (\<lambda>r. r Annee) (generate_financial_data self nz) = map real_of_int (date_range 2002 2025)"
  proof (rule nth_equalityI)
    show "length (map (\<lambda>r. r Annee) (generate_financial_data self nz)) =
          length (map real_of_int (date_range 2002 2025))"
      by (simp add: len date_range_length)
  next
    fix i assume "i < length (map (\<lambda>r. r Annee) (generate_financial_data self nz))"
    then have i: "i < 24" by (simp add: len)
    then show "map (\<lambda>r. r Annee) (generate_financial_data self nz) ! i =
               map real_of_int (date_range 2002 2025) ! i"
      by (simp add: len cell date_range_length date_range_nth)
  qed
  then have "map (\<lambda>r. r Annee) (generate_financial_data self nz) = map real_of_int [2002..2025]"
    by (simp only: date_range_def)
  moreover have "cell (generate_financial_data self nz) (0) Annee = real_of_int (start_year self)"
    using cell [of 0] assms by simp
  moreover have "\<forall>i. Suc i < 24 \<longrightarrow>
            cell (generate_financial_data self nz) (Suc i) Annee = cell (generate_financial_data self nz) (i) Annee + 1"
    by (simp add: cell)
  ultimately show ?thesis using len assms by simp
qed

theorem generate_row_per_year_witness:
  "length (generate_financial_data
      \<lparr>commune = ''Bourail'', start_year = 2002, end_year = 2025,
       config = \<lparr>population_base = 5500, budget_base = 45, type_commune = ''rurale'',
                 specialites = [''agriculture'', ''elevage'', ''tourisme'', ''culture'']\<rparr>\<rparr> no_noise) = 24 \<and>
   cell (generate_financial_data
      \<lparr>commune = ''Bourail'', start_year = 2002, end_year = 2025,
       config = \<lparr>population_base = 5500, budget_base = 45, type_commune = ''rurale'',
                 specialites = [''agriculture'', ''elevage'', ''tourisme'', ''culture'']\<rparr>\<rparr> no_noise) 1 Annee =
   cell (generate_financial_data
      \<lparr>commune = ''Bourail'', start_year = 2002, end_year = 2025,
       config = \<lparr>population_base = 5500, budget_base = 45, type_commune = ''rurale'',
                 specialites = [''agriculture'', ''elevage'', ''tourisme'', ''culture'']\<rparr>\<rparr> no_noise) 0 Annee + 1"
  using generate_row_per_year [of "\<lparr>commune = ''Bourail'', start_year = 2002, end_year = 2025,
       config = \<lparr>population_base = 5500, budget_base = 45, type_commune = ''rurale'',
                 specialites = [''agriculture'', ''elevage'', ''tourisme'', ''culture'']\<rparr>\<rparr>" no_noise]
  by simp

lemma raw_table_cell:
  "i < nat (end_year self - start_year self + 1) \<Longrightarrow>
   cell (raw_table self nz) i c = build_data self nz c ! i"
  by (simp add: raw_table_nth)

lemma raw_state_grants:
  assumes "i < nat (end_year self - start_year self + 1)"
  shows "cell (raw_table self nz) i Dotations_Etat =
           budget_base (config self) * 0.25 *
           (if start_year self + int i \<ge> 2010
            then 1 + 0.01 * real_of_int (start_year self + int i - 2010) else 1) *
           nz Dotations_Etat i"
  using assms
  by (simp add: raw_table_cell build_data_def simulate_state_grants_def nth_enumerate_eq
      date_range_length date_range_nth Let_def)

lemma trends_row_state_grants:
  "trends_row r Dotations_Etat =
     (if r Annee \<ge> 2010 then r Dotations_Etat * (1 + 0.015 * (r Annee - 2010)) else r Dotations_Etat)"
  by (simp add: trends_row_def scale_def Let_def)

section \<open>State grants\<close>

text \<open>
  C10. With noise disabled, the state-grant value of the delivered table carries two
  multiplicative trends anchored at 2010: for a row of year \<open>y \<ge> 2010\<close> the generator
  yields \<open>budget_base * 0.25 * (1 + 0.01 * (y - 2010))\<close> and the adjustment pass multiplies
  it by \<open>1 + 0.015 * (y - 2010)\<close>; for a row of a year before 2010 neither trend applies
  and the value is \<open>budget_base * 0.25\<close>.
\<close>

theorem state_grants_stacked_trends:
  assumes "i < nat (end_year self - start_year self + 1)"
    and "y = start_year self + int i"
  shows "cell (generate_financial_data self no_noise) i Annee = real_of_int y \<and>
         (2010 \<le> y \<longrightarrow>
            cell (raw_table self no_noise) i Dotations_Etat =
              budget_base (config self) * 0.25 * (1 + 0.01 * real_of_int (y - 2010)) \<and>
            cell (generate_financial_data self no_noise) i Dotations_Etat =
              budget_base (config self) * 0.25 * (1 + 0.01 * real_of_int (y - 2010)) *
              (1 + 0.015 * real_of_int (y - 2010))) \<and>
         (y < 2010 \<longrightarrow>
            cell (generate_financial_data self no_noise) i Dotations_Etat =
              budget_base (config self) * 0.25)"
  using assms
  by (simp add: generate_nth trends_row_state_grants trends_row_Annee raw_table_Annee raw_state_grants no_noise_def)

theorem state_grants_stacked_trends_witness:
  "cell (generate_financial_data
      \<lparr>commune = ''Mont-Dore'', start_year = 2002, end_year = 2025,
       config = \<lparr>population_base = 28000, budget_base = 75, type_commune = ''periurbaine'',
                 specialites = [''tourisme'', ''nature'', ''agriculture'', ''reservoir_eau'']\<rparr>\<rparr>
      no_noise) 18 Dotations_Etat = 75 * 0.25 * (1 + 0.01 * 10) * (1 + 0.015 * 10) \<and>
   cell (generate_financial_data
      \<lparr>commune = ''Mont-Dore'', start_year = 2002, end_year = 2025,
       config = \<lparr>population_base = 28000, budget_base = 75, type_commune = ''periurbaine'',
                 specialites = [''tourisme'', ''nature'', ''agriculture'', ''reservoir_eau'']\<rparr>\<rparr>
      no_noise) 3 Dotations_Etat = 75 * 0.25"
  using state_grants_stacked_trends [of 18
      "\<lparr>commune = ''Mont-Dore'', start_year = 2002, end_year = 2025,
       config = \<lparr>population_base = 28000, budget_base = 75, type_commune = ''periurbaine'',
                 specialites = [''tourisme'', ''nature'', ''agriculture'', ''reservoir_eau'']\<rparr>\<rparr>" 2020]
    state_grants_stacked_trends [of 3
      "\<lparr>commune = ''Mont-Dore'', start_year = 2002, end_year = 2025,
       config = \<lparr>population_base = 28000, budget_base = 75, type_commune = ''periurbaine'',
                 specialites = [''tourisme'', ''nature'', ''agriculture'', ''reservoir_eau'']\<rparr>\<rparr>" 2005]
  by simp

section \<open>Mining investment in 2024\<close>

lemma raw_mining:
  assumes "i < nat (end_year self - start_year self + 1)"
  shows "cell (raw_table self nz) i Investissement_Mine =
           budget_base (config self) * 0.04 * (1 + 0.038 * real i) *
           (if start_year self + int i \<in> {2007, 2013, 2019, 2024} then 2.1 else 1) *
           (if ''mine'' \<in> set (specialites (config self)) then 1.8 else 0.6) *
           nz Investissement_Mine i"
  using assms
  by (simp add: raw_table_cell build_data_def simulate_mining_investment_def nth_enumerate_eq
      date_range_length date_range_nth Let_def)

lemma trends_row_mining:
  "trends_row r Investissement_Mine =
     r Investissement_Mine *
     (if 2010 \<le> r Annee \<and> r Annee \<le> 2014 then 1.5 else 1) *
     (if r Annee \<ge> 2022 then 1.18 else 1)"
  by (simp add: trends_row_def scale_def Let_def)

text \<open>
  C1 as stated fails. For a commune with \<open>budget_base = 50\<close> and the mining specialty,
  years 2002 to 2025 and no noise, the value that the generator computes for 2024 is
  \<open>50 * 0.04 * (1 + 0.038 * 22) * 2.1 * 1.8\<close>, but the table handed to consumers has been
  through the adjustment pass, whose stimulus block multiplies the mining column by 1.18
  for every year from 2022 on. The delivered value differs from the stated one.
\<close>

theorem mining_2024_counterexample:
  "cell (generate_financial_data
      \<lparr>commune = ''Kon'' @ [CHR 0xC3, CHR 0xA9], start_year = 2002, end_year = 2025,
       config = \<lparr>population_base = 8000, budget_base = 50, type_commune = ''rurale'',
                 specialites = [''administration_nord'', ''mine'', ''agriculture'', ''elevage'']\<rparr>\<rparr>
      no_noise) 22 Annee = 2024 \<and>
   cell (generate_financial_data
      \<lparr>commune = ''Kon'' @ [CHR 0xC3, CHR 0xA9], start_year = 2002, end_year = 2025,
       config = \<lparr>population_base = 8000, budget_base = 50, type_commune = ''rurale'',
                 specialites = [''administration_nord'', ''mine'', ''agriculture'', ''elevage'']\<rparr>\<rparr>
      no_noise) 22 Investissement_Mine \<noteq> 50 * 0.04 * (1 + 0.038 * 22) * 2.1 * 1.8"
  by (simp add: generate_nth trends_row_mining trends_row_Annee raw_table_Annee raw_mining no_noise_def)

text \<open>
  C1, amended. Under the same configuration the row at index 22 is the year 2024; its
  mining investment is \<open>50 * 0.04 * (1 + 0.038 * 22) * 2.1 * 1.8\<close> before the adjustment
  pass and \<open>50 * 0.04 * (1 + 0.038 * 22) * 2.1 * 1.8 * 1.18\<close> in the delivered table.
  The specialty string that the generator tests is \<open>mine\<close>.
\<close>

theorem mining_2024_with_stimulus:
  assumes "start_year self = 2002" and "end_year self = 2025"
    and "budget_base (config self) = 50"
    and "''mine'' \<in> set (specialites (config self))"
  shows "cell (generate_financial_data self no_noise) 22 Annee = 2024 \<and>
         cell (raw_table self no_noise) 22 Investissement_Mine =
           50 * 0.04 * (1 + 0.038 * 22) * 2.1 * 1.8 \<and>
         cell (generate_financial_data self no_noise) 22 Investissement_Mine =
           50 * 0.04 * (1 + 0.038 * 22) * 2.1 * 1.8 * 1.18"
  using assms
  by (simp add: generate_nth trends_row_mining trends_row_Annee raw_table_Annee raw_mining no_noise_def)

theorem mining_2024_with_stimulus_witness:
  "cell (generate_financial_data
      \<lparr>commune = ''Kon'' @ [CHR 0xC3, CHR 0xA9], start_year = 2002, end_year = 2025,
       config = \<lparr>population_base = 8000, budget_base = 50, type_commune = ''rurale'',
                 specialites = [''administration_nord'', ''mine'', ''agriculture'', ''elevage'']\<rparr>\<rparr>
      no_noise) 22 Investissement_Mine = 50 * 0.04 * (1 + 0.038 * 22) * 2.1 * 1.8 * 1.18"
  using mining_2024_with_stimulus [of
      "\<lparr>commune = ''Kon'' @ [CHR 0xC3, CHR 0xA9], start_year = 2002, end_year = 2025,
       config = \<lparr>population_base = 8000, budget_base = 50, type_commune = ''rurale'',
                 specialites = [''administration_nord'', ''mine'', ''agriculture'', ''elevage'']\<rparr>\<rparr>"]
  by simp

section \<open>The pandemic block\<close>

lemma trends_row_other_revenue:
  "trends_row r Autres_Recettes =
     r Autres_Recettes *
     (if 2008 \<le> r Annee \<and> r Annee \<le> 2009 then 0.88 else 1) *
     (if r Annee = 2020 then 0.75 else 1)"
  by (simp add: trends_row_def scale_def Let_def)

lemma trends_row_tourism:
  "trends_row r Investissement_Tourisme =
     r Investissement_Tourisme *
     (if 2002 \<le> r Annee \<and> r Annee \<le> 2005 then 1.4 else 1) *
     (if r Annee = 2020 then 0.88 else 1) *
     (if r Annee \<ge> 2022 then 1.2 else 1)"
  by (simp add: trends_row_def scale_def Let_def)

lemma raw_other_revenue:
  assumes "i < nat (end_year self - start_year self + 1)"
  shows "cell (raw_table self nz) i Autres_Recettes =
           budget_base (config self) * 0.15 * (1 + 0.026 * real i) * nz Autres_Recettes i"
  using assms
  by (simp add: raw_table_cell build_data_def simulate_other_revenue_def nth_enumerate_eq
      date_range_length date_range_nth Let_def)

lemma raw_tourism:
  assumes "i < nat (end_year self - start_year self + 1)"
  shows "cell (raw_table self nz) i Investissement_Tourisme =
           budget_base (config self) * 0.06 * (1 + 0.035 * real i) *
           (if start_year self + int i \<in> {2007, 2013, 2019, 2024} then 1.9 else 1) *
           (if ''tourisme'' \<in> set (specialites (config self)) then 1.7 else 0.7) *
           nz Investissement_Tourisme i"
  using assms
  by (simp add: raw_table_cell build_data_def simulate_tourism_investment_def nth_enumerate_eq
      date_range_length date_range_nth Let_def)

text \<open>
  C2 as stated fails. The block guarded by \<open>2020 <= year <= 2021\<close> holds a second guard
  \<open>year == 2020\<close> around both of its assignments, so nothing is done for 2021. In the
  table of the commune Kone without noise the row at index 19 is the year 2021, and neither its
  other revenue nor its tourism investment is reduced by the pass.
\<close>

theorem pandemic_2021_counterexample:
  "cell (raw_table
      \<lparr>commune = ''Kon'' @ [CHR 0xC3, CHR 0xA9], start_year = 2002, end_year = 2025,
       config = \<lparr>population_base = 8000, budget_base = 50, type_commune = ''rurale'',
                 specialites = [''administration_nord'', ''mine'', ''agriculture'', ''elevage'']\<rparr>\<rparr>
      no_noise) 19 Annee = 2021 \<and>
   \<not> cell (generate_financial_data
      \<lparr>commune = ''Kon'' @ [CHR 0xC3, CHR 0xA9], start_year = 2002, end_year = 2025,
       config = \<lparr>population_base = 8000, budget_base = 50, type_commune = ''rurale'',
                 specialites = [''administration_nord'', ''mine'', ''agriculture'', ''elevage'']\<rparr>\<rparr>
      no_noise) 19 Autres_Recettes
     < cell (raw_table
      \<lparr>commune = ''Kon'' @ [CHR 0xC3, CHR 0xA9], start_year = 2002, end_year = 2025,
       config = \<lparr>population_base = 8000, budget_base = 50, type_commune = ''rurale'',
                 specialites = [''administration_nord'', ''mine'', ''agriculture'', ''elevage'']\<rparr>\<rparr>
      no_noise) 19 Autres_Recettes \<and>
   \<not> cell (generate_financial_data
      \<lparr>commune = ''Kon'' @ [CHR 0xC3, CHR 0xA9], start_year = 2002, end_year = 2025,
       config = \<lparr>population_base = 8000, budget_base = 50, type_commune = ''rurale'',
                 specialites = [''administration_nord'', ''mine'', ''agriculture'', ''elevage'']\<rparr>\<rparr>
      no_noise) 19 Investissement_Tourisme
     < cell (raw_table
      \<lparr>commune = ''Kon'' @ [CHR 0xC3, CHR 0xA9], start_year = 2002, end_year = 2025,
       config = \<lparr>population_base = 8000, budget_base = 50, type_commune = ''rurale'',
                 specialites = [''administration_nord'', ''mine'', ''agriculture'', ''elevage'']\<rparr>\<rparr>
      no_noise) 19 Investissement_Tourisme"
  by (simp add: generate_nth trends_row_other_revenue trends_row_tourism raw_table_Annee)

text \<open>
  C2, amended. Of the rows in the range 2020 to 2021 the pass adjusts the 2020 row only:
  there other revenue is multiplied by 0.75 and tourism investment by 0.88. In a 2021 row
  the pass leaves both columns at their values from before the pass.
\<close>

theorem pandemic_dip_2020_only:
  assumes "i < length df"
  shows "(cell df i Annee = 2020 \<longrightarrow>
            cell (add_municipal_trends df) i Autres_Recettes = cell df i Autres_Recettes * 0.75 \<and>
            cell (add_municipal_trends df) i Investissement_Tourisme =
              cell df i Investissement_Tourisme * 0.88) \<and>
         (cell df i Annee = 2021 \<longrightarrow>
            cell (add_municipal_trends df) i Autres_Recettes = cell df i Autres_Recettes \<and>
            cell (add_municipal_trends df) i Investissement_Tourisme =
              cell df i Investissement_Tourisme)"
  using assms
  by (simp add: add_municipal_trends_map trends_row_other_revenue trends_row_tourism)

theorem pandemic_dip_2020_only_witness:
  "cell (add_municipal_trends (raw_table
      \<lparr>commune = ''Kon'' @ [CHR 0xC3, CHR 0xA9], start_year = 2002, end_year = 2025,
       config = \<lparr>population_base = 8000, budget_base = 50, type_commune = ''rurale'',
                 specialites = [''administration_nord'', ''mine'', ''agriculture'', ''elevage'']\<rparr>\<rparr>
      no_noise)) 18 Autres_Recettes = 50 * 0.15 * (1 + 0.026 * 18) * 0.75 \<and>
   cell (add_municipal_trends (raw_table
      \<lparr>commune = ''Kon'' @ [CHR 0xC3, CHR 0xA9], start_year = 2002, end_year = 2025,
       config = \<lparr>population_base = 8000, budget_base = 50, type_commune = ''rurale'',
                 specialites = [''administration_nord'', ''mine'', ''agriculture'', ''elevage'']\<rparr>\<rparr>
      no_noise)) 19 Autres_Recettes = 50 * 0.15 * (1 + 0.026 * 19)"
  using pandemic_dip_2020_only [of 18 "raw_table
      \<lparr>commune = ''Kon'' @ [CHR 0xC3, CHR 0xA9], start_year = 2002, end_year = 2025,
       config = \<lparr>population_base = 8000, budget_base = 50, type_commune = ''rurale'',
                 specialites = [''administration_nord'', ''mine'', ''agriculture'', ''elevage'']\<rparr>\<rparr>
      no_noise"]
    pandemic_dip_2020_only [of 19 "raw_table
      \<lparr>commune = ''Kon'' @ [CHR 0xC3, CHR 0xA9], start_year = 2002, end_year = 2025,
       config = \<lparr>population_base = 8000, budget_base = 50, type_commune = ''rurale'',
                 specialites = [''administration_nord'', ''mine'', ''agriculture'', ''elevage'']\<rparr>\<rparr>
      no_noise"]
  by (simp add: raw_table_length raw_table_Annee raw_other_revenue no_noise_def)

section \<open>Frame of the adjustment pass\<close>

lemma trends_row_frame:
  assumes "c \<notin> {Recettes_Totales, Autres_Recettes, Investissement, Dotations_Etat,
                Dotations_Territoriales, Investissement_Agriculture, Investissement_Tourisme,
                Investissement_Mine, Investissement_Environnement}"
  shows "trends_row r c = r c"
  using assms by (simp add: trends_row_def scale_def Let_def)

lemma untouched_columns:
  assumes "c \<notin> {Recettes_Totales, Autres_Recettes, Investissement, Dotations_Etat,
                Dotations_Territoriales, Investissement_Agriculture, Investissement_Tourisme,
                Investissement_Mine, Investissement_Environnement}"
  shows "c \<in> {Annee, Population, Menages, Impots_Locaux, Depenses_Totales, Fonctionnement,
               Charge_Dette, Personnel, Epargne_Brute, Dette_Totale, Taux_Endettement,
               Taux_Fiscalite, Investissement_Transport, Investissement_Education,
               Investissement_Culture}"
  using assms by (cases c) simp_all

text \<open>
  C8. The pass writes only to the nine columns of its rules: total revenue, other
  revenue, investment expense, state grants, territorial grants and the agriculture,
  tourism, mining and environment investments. Any other column is one of the fifteen
  columns year, population, households, local taxes, total expense, operating expense,
  debt charge, staff cost, savings, total debt, debt ratio, tax rate and transport,
  education and culture investment, and it is the same in every row after the pass as
  before. The pass takes no noise argument: its result is \<open>trends_row\<close> applied to each row
  of the input table, with the number of rows unchanged.
\<close>

theorem add_municipal_trends_frame:
  assumes "c \<notin> {Recettes_Totales, Autres_Recettes, Investissement, Dotations_Etat,
                Dotations_Territoriales, Investissement_Agriculture, Investissement_Tourisme,
                Investissement_Mine, Investissement_Environnement}"
  shows "c \<in> {Annee, Population, Menages, Impots_Locaux, Depenses_Totales, Fonctionnement,
               Charge_Dette, Personnel, Epargne_Brute, Dette_Totale, Taux_Endettement,
               Taux_Fiscalite, Investissement_Transport, Investissement_Education,
               Investissement_Culture} \<and>
         map (\<lambda>r. r c) (add_municipal_trends df) = map (\<lambda>r. r c) df \<and>
         length (add_municipal_trends df) = length df \<and>
         add_municipal_trends df = map trends_row df"
  using assms untouched_columns [of c]
  by (simp add: add_municipal_trends_map trends_row_frame)

theorem add_municipal_trends_frame_witness:
  "map (\<lambda>r. r Dette_Totale) (add_municipal_trends (raw_table
      \<lparr>commune = ''La Foa'', start_year = 2002, end_year = 2025,
       config = \<lparr>population_base = 3500, budget_base = 40, type_commune = ''rurale'',
                 specialites = [''agriculture'', ''culture'', ''tourisme'', ''histoire'']\<rparr>\<rparr>
      no_noise)) =
   map (\<lambda>r. r Dette_Totale) (raw_table
      \<lparr>commune = ''La Foa'', start_year = 2002, end_year = 2025,
       config = \<lparr>population_base = 3500, budget_base = 40, type_commune = ''rurale'',
                 specialites = [''agriculture'', ''culture'', ''tourisme'', ''histoire'']\<rparr>\<rparr>
      no_noise)"
proof -
  have h: "Dette_Totale \<notin> {Recettes_Totales, Autres_Recettes, Investissement, Dotations_Etat,
                Dotations_Territoriales, Investissement_Agriculture, Investissement_Tourisme,
                Investissement_Mine, Investissement_Environnement}"
    by simp
  show ?thesis
    using add_municipal_trends_frame [OF h] by blast
qed

section \<open>Applying the pass twice\<close>

lemma trends_row_multiplies:
  assumes "c \<noteq> Annee"
  shows "trends_row r c = r c * trend_multiplier (r Annee) c"
  using assms
  by (cases c) (simp_all add: trend_multiplier_def trends_row_def scale_def Let_def)

lemma trends_row_twice:
  assumes "c \<noteq> Annee"
  shows "trends_row (trends_row r) c = r c * (trend_multiplier (r Annee) c)\<^sup>2"
  using assms by (simp add: trends_row_multiplies trends_row_Annee power2_eq_square)

lemma raw_agriculture:
  assumes "i < nat (end_year self - start_year self + 1)"
  shows "cell (raw_table self nz) i Investissement_Agriculture =
           budget_base (config self) * 0.05 * (1 + 0.03 * real i) *
           (if start_year self + int i \<in> {2005, 2010, 2015, 2020} then 1.9 else 1) *
           (if ''agriculture'' \<in> set (specialites (config self)) then 1.4 else 0.8) *
           nz Investissement_Agriculture i"
  using assms
  by (simp add: raw_table_cell build_data_def simulate_agriculture_investment_def nth_enumerate_eq
      date_range_length date_range_nth Let_def)

lemma trends_row_agriculture:
  "trends_row r Investissement_Agriculture =
     r Investissement_Agriculture * (if 2002 \<le> r Annee \<and> r Annee \<le> 2005 then 1.5 else 1)"
  by (simp add: trends_row_def scale_def Let_def)

text \<open>
  C7. The pass is not idempotent. On the freshly generated table of a commune with a
  non-zero budget (and a non-zero first agriculture draw) a second application gives a
  table different from the result of the first. In any table, for every row and every
  column other than the year, one application multiplies the cell by
  \<open>trend_multiplier\<close> of the row's year and the column, and two applications multiply it
  by the square of that factor.
\<close>

theorem add_municipal_trends_not_idempotent:
  assumes "start_year self = 2002" and "end_year self = 2025"
    and "budget_base (config self) \<noteq> 0"
    and "nz Investissement_Agriculture 0 \<noteq> 0"
  shows "add_municipal_trends (add_municipal_trends (raw_table self nz)) \<noteq>
           add_municipal_trends (raw_table self nz) \<and>
         (i < length df \<longrightarrow> c \<noteq> Annee \<longrightarrow>
            cell (add_municipal_trends df) i c =
              cell df i c * trend_multiplier (cell df i Annee) c \<and>
            cell (add_municipal_trends (add_municipal_trends df)) i c =
              cell df i c * (trend_multiplier (cell df i Annee) c)\<^sup>2)"
proof (intro conjI impI)
  let ?raw = "raw_table self nz"
  have n: "0 < nat (end_year self - start_year self + 1)"
    using assms by simp
  have len: "0 < length ?raw"
    using n by (simp add: raw_table_length)
  have y: "cell ?raw 0 Annee = 2002"
    using assms n raw_table_Annee [of 0 self nz] by simp
  have v: "cell ?raw 0 Investissement_Agriculture \<noteq> 0"
    using assms n by (simp add: raw_agriculture)
  have once: "cell (add_municipal_trends ?raw) 0 Investissement_Agriculture =
                cell ?raw 0 Investissement_Agriculture * 1.5"
    using len y by (simp add: add_municipal_trends_map trends_row_agriculture)
  have twice: "cell (add_municipal_trends (add_municipal_trends ?raw)) 0 Investissement_Agriculture =
                cell ?raw 0 Investissement_Agriculture * 1.5 * 1.5"
    using len y by (simp add: add_municipal_trends_map trends_row_agriculture trends_row_Annee)
  have "cell (add_municipal_trends (add_municipal_trends ?raw)) 0 Investissement_Agriculture \<noteq>
        cell (add_municipal_trends ?raw) 0 Investissement_Agriculture"
    using v by (simp add: once twice)
  then show "add_municipal_trends (add_municipal_trends ?raw) \<noteq> add_municipal_trends ?raw"
    by auto
next
  assume "i < length df" and "c \<noteq> Annee"
  then show "cell (add_municipal_trends df) i c = cell df i c * trend_multiplier (cell df i Annee) c"
    by (simp add: add_municipal_trends_map trends_row_multiplies)
next
  assume "i < length df" and "c \<noteq> Annee"
  then show "cell (add_municipal_trends (add_municipal_trends df)) i c =
              cell df i c * (trend_multiplier (cell df i Annee) c)\<^sup>2"
    by (simp add: add_municipal_trends_map trends_row_twice)
qed

theorem add_municipal_trends_not_idempotent_witness:
  "add_municipal_trends (add_municipal_trends (raw_table
      \<lparr>commune = ''Kon'' @ [CHR 0xC3, CHR 0xA9], start_year = 2002, end_year = 2025,
       config = \<lparr>population_base = 8000, budget_base = 50, type_commune = ''rurale'',
                 specialites = [''administration_nord'', ''mine'', ''agriculture'', ''elevage'']\<rparr>\<rparr>
      no_noise)) \<noteq>
   add_municipal_trends (raw_table
      \<lparr>commune = ''Kon'' @ [CHR 0xC3, CHR 0xA9], start_year = 2002, end_year = 2025,
       config = \<lparr>population_base = 8000, budget_base = 50, type_commune = ''rurale'',
                 specialites = [''administration_nord'', ''mine'', ''agriculture'', ''elevage'']\<rparr>\<rparr>
      no_noise) \<and>
   cell (add_municipal_trends (add_municipal_trends (raw_table
      \<lparr>commune = ''Kon'' @ [CHR 0xC3, CHR 0xA9], start_year = 2002, end_year = 2025,
       config = \<lparr>population_base = 8000, budget_base = 50, type_commune = ''rurale'',
                 specialites = [''administration_nord'', ''mine'', ''agriculture'', ''elevage'']\<rparr>\<rparr>
      no_noise))) 22 Investissement_Mine =
   50 * 0.04 * (1 + 0.038 * 22) * 2.1 * 1.8 * 1.18\<^sup>2"
proof -
  let ?K = "\<lparr>commune = ''Kon'' @ [CHR 0xC3, CHR 0xA9], start_year = 2002, end_year = 2025,
       config = \<lparr>population_base = 8000, budget_base = 50, type_commune = ''rurale'',
                 specialites = [''administration_nord'', ''mine'', ''agriculture'', ''elevage'']\<rparr>\<rparr>"
  have m: "trend_multiplier 2024 Investissement_Mine = 1.18"
    by (simp add: trend_multiplier_def trends_row_def scale_def Let_def)
  have y: "cell (raw_table ?K no_noise) 22 Annee = 2024"
    by (simp add: raw_table_Annee)
  have v: "cell (raw_table ?K no_noise) 22 Investissement_Mine = 50 * 0.04 * (1 + 0.038 * 22) * 2.1 * 1.8"
    by (simp add: raw_mining no_noise_def)
  have l: "22 < length (raw_table ?K no_noise)"
    by (simp add: raw_table_length)
  have nn: "no_noise Investissement_Agriculture 0 \<noteq> 0"
    by (simp add: no_noise_def)
  have c: "Investissement_Mine \<noteq> Annee" by simp
  have b: "budget_base (config ?K) \<noteq> 0" by simp
  note T = add_municipal_trends_not_idempotent [of ?K no_noise 22 "raw_table ?K no_noise" Investissement_Mine,
      OF _ _ b nn]
  have A: "add_municipal_trends (add_municipal_trends (raw_table ?K no_noise)) \<noteq>
           add_municipal_trends (raw_table ?K no_noise)"
    using T by simp
  have "cell (add_municipal_trends (add_municipal_trends (raw_table ?K no_noise))) 22 Investissement_Mine =
        cell (raw_table ?K no_noise) 22 Investissement_Mine *
        (trend_multiplier (cell (raw_table ?K no_noise) 22 Annee) Investissement_Mine)\<^sup>2"
    using T l c by simp
  then have B: "cell (add_municipal_trends (add_municipal_trends (raw_table ?K no_noise))) 22 Investissement_Mine =
        50 * 0.04 * (1 + 0.038 * 22) * 2.1 * 1.8 * 1.18\<^sup>2"
    by (simp only: y m v)
  from A B show ?thesis by (rule conjI)
qed

section \<open>Dependence on the noise draws\<close>

text \<open>Each generator reads its noise only at the indices of the years it is given.\<close>

lemma simulate_total_revenue_noise_cong:
  assumes "\<forall>i<length dates. n1 i = n2 i"
  shows "simulate_total_revenue cfg n1 dates = simulate_total_revenue cfg n2 dates"
  using assms by (intro nth_equalityI) (simp_all add: simulate_total_revenue_def nth_enumerate_eq Let_def)

lemma simulate_tax_revenue_noise_cong:
  assumes "\<forall>i<length dates. n1 i = n2 i"
  shows "simulate_tax_revenue cfg n1 dates = simulate_tax_revenue cfg n2 dates"
  using assms by (intro nth_equalityI) (simp_all add: simulate_tax_revenue_def nth_enumerate_eq Let_def)

lemma simulate_state_grants_noise_cong:
  assumes "\<forall>i<length dates. n1 i = n2 i"
  shows "simulate_state_grants cfg n1 dates = simulate_state_grants cfg n2 dates"
  using assms by (intro nth_equalityI) (simp_all add: simulate_state_grants_def nth_enumerate_eq Let_def)

lemma simulate_territorial_grants_noise_cong:
  assumes "\<forall>i<length dates. n1 i = n2 i"
  shows "simulate_territorial_grants cfg n1 dates = simulate_territorial_grants cfg n2 dates"
  using assms by (intro nth_equalityI) (simp_all add: simulate_territorial_grants_def nth_enumerate_eq Let_def)

lemma simulate_other_revenue_noise_cong:
  assumes "\<forall>i<length dates. n1 i = n2 i"
  shows "simulate_other_revenue cfg n1 dates = simulate_other_revenue cfg n2 dates"
  using assms by (intro nth_equalityI) (simp_all add: simulate_other_revenue_def nth_enumerate_eq Let_def)

lemma simulate_total_expenses_noise_cong:
  assumes "\<forall>i<length dates. n1 i = n2 i"
  shows "simulate_total_expenses cfg n1 dates = simulate_total_expenses cfg n2 dates"
  using assms by (intro nth_equalityI) (simp_all add: simulate_total_expenses_def nth_enumerate_eq Let_def)

lemma simulate_operating_expenses_noise_cong:
  assumes "\<forall>i<length dates. n1 i = n2 i"
  shows "simulate_operating_expenses cfg n1 dates = simulate_operating_expenses cfg n2 dates"
  using assms by (intro nth_equalityI) (simp_all add: simulate_operating_expenses_def nth_enumerate_eq Let_def)

lemma simulate_investment_expenses_noise_cong:
  assumes "\<forall>i<length dates. n1 i = n2 i"
  shows "simulate_investment_expenses cfg n1 dates = simulate_investment_expenses cfg n2 dates"
  using assms by (intro nth_equalityI) (simp_all add: simulate_investment_expenses_def nth_enumerate_eq Let_def)

lemma simulate_debt_charges_noise_cong:
  assumes "\<forall>i<length dates. n1 i = n2 i"
  shows "simulate_debt_charges cfg n1 dates = simulate_debt_charges cfg n2 dates"
  using assms by (intro nth_equalityI) (simp_all add: simulate_debt_charges_def nth_enumerate_eq Let_def)

lemma simulate_staff_costs_noise_cong:
  assumes "\<forall>i<length dates. n1 i = n2 i"
  shows "simulate_staff_costs cfg n1 dates = simulate_staff_costs cfg n2 dates"
  using assms by (intro nth_equalityI) (simp_all add: simulate_staff_costs_def nth_enumerate_eq Let_def)

lemma simulate_gross_savings_noise_cong:
  assumes "\<forall>i<length dates. n1 i = n2 i"
  shows "simulate_gross_savings cfg n1 dates = simulate_gross_savings cfg n2 dates"
  using assms by (intro nth_equalityI) (simp_all add: simulate_gross_savings_def nth_enumerate_eq Let_def)

lemma simulate_total_debt_noise_cong:
  assumes "\<forall>i<length dates. n1 i = n2 i"
  shows "simulate_total_debt cfg n1 dates = simulate_total_debt cfg n2 dates"
  using assms by (intro nth_equalityI) (simp_all add: simulate_total_debt_def nth_enumerate_eq Let_def)

lemma simulate_debt_ratio_noise_cong:
  assumes "\<forall>i<length dates. n1 i = n2 i"
  shows "simulate_debt_ratio cfg n1 dates = simulate_debt_ratio cfg n2 dates"
  using assms by (intro nth_equalityI) (simp_all add: simulate_debt_ratio_def nth_enumerate_eq Let_def)

lemma simulate_tax_rate_noise_cong:
  assumes "\<forall>i<length dates. n1 i = n2 i"
  shows "simulate_tax_rate cfg n1 dates = simulate_tax_rate cfg n2 dates"
  using assms by (intro nth_equalityI) (simp_all add: simulate_tax_rate_def nth_enumerate_eq Let_def)

lemma simulate_agriculture_investment_noise_cong:
  assumes "\<forall>i<length dates. n1 i = n2 i"
  shows "simulate_agriculture_investment cfg n1 dates = simulate_agriculture_investment cfg n2 dates"
  using assms by (intro nth_equalityI) (simp_all add: simulate_agriculture_investment_def nth_enumerate_eq Let_def)

lemma simulate_tourism_investment_noise_cong:
  assumes "\<forall>i<length dates. n1 i = n2 i"
  shows "simulate_tourism_investment cfg n1 dates = simulate_tourism_investment cfg n2 dates"
  using assms by (intro nth_equalityI) (simp_all add: simulate_tourism_investment_def nth_enumerate_eq Let_def)

lemma simulate_transport_investment_noise_cong:
  assumes "\<forall>i<length dates. n1 i = n2 i"
  shows "simulate_transport_investment cfg n1 dates = simulate_transport_investment cfg n2 dates"
  using assms by (intro nth_equalityI) (simp_all add: simulate_transport_investment_def nth_enumerate_eq Let_def)

lemma simulate_education_investment_noise_cong:
  assumes "\<forall>i<length dates. n1 i = n2 i"
  shows "simulate_education_investment cfg n1 dates = simulate_education_investment cfg n2 dates"
  using assms by (intro nth_equalityI) (simp_all add: simulate_education_investment_def nth_enumerate_eq Let_def)

lemma simulate_environment_investment_noise_cong:
  assumes "\<forall>i<length dates. n1 i = n2 i"
  shows "simulate_environment_investment cfg n1 dates = simulate_environment_investment cfg n2 dates"
  using assms by (intro nth_equalityI) (simp_all add: simulate_environment_investment_def nth_enumerate_eq Let_def)

lemma simulate_culture_investment_noise_cong:
  assumes "\<forall>i<length dates. n1 i = n2 i"
  shows "simulate_culture_investment cfg n1 dates = simulate_culture_investment cfg n2 dates"
  using assms by (intro nth_equalityI) (simp_all add: simulate_culture_investment_def nth_enumerate_eq Let_def)

lemma simulate_mining_investment_noise_cong:
  assumes "\<forall>i<length dates. n1 i = n2 i"
  shows "simulate_mining_investment cfg n1 dates = simulate_mining_investment cfg n2 dates"
  using assms by (intro nth_equalityI) (simp_all add: simulate_mining_investment_def nth_enumerate_eq Let_def)

lemma build_data_noise_cong:
  assumes "\<forall>i<nat (end_year self - start_year self + 1). nz1 c i = nz2 c i"
  shows "build_data self nz1 c = build_data self nz2 c"
proof -
  have a: "\<forall>i<length (date_range (start_year self) (end_year self)). nz1 c i = nz2 c i"
    using assms by (simp add: date_range_length)
  show ?thesis
    using a
    by (cases c)
       (simp_all add: build_data_def Let_def
          simulate_total_revenue_noise_cong
          simulate_tax_revenue_noise_cong
          simulate_state_grants_noise_cong
          simulate_territorial_grants_noise_cong
          simulate_other_revenue_noise_cong
          simulate_total_expenses_noise_cong
          simulate_operating_expenses_noise_cong
          simulate_investment_expenses_noise_cong
          simulate_debt_charges_noise_cong
          simulate_staff_costs_noise_cong
          simulate_gross_savings_noise_cong
          simulate_total_debt_noise_cong
          simulate_debt_ratio_noise_cong
          simulate_tax_rate_noise_cong
          simulate_agriculture_investment_noise_cong
          simulate_tourism_investment_noise_cong
          simulate_transport_investment_noise_cong
          simulate_education_investment_noise_cong
          simulate_environment_investment_noise_cong
          simulate_culture_investment_noise_cong
          simulate_mining_investment_noise_cong)
qed

lemma raw_table_noise_cong:
  assumes "\<forall>c. \<forall>i<nat (end_year self - start_year self + 1). nz1 c i = nz2 c i"
  shows "raw_table self nz1 = raw_table self nz2"
proof -
  have "build_data self nz1 c = build_data self nz2 c" for c
    using assms by (intro build_data_noise_cong) simp
  then have "build_data self nz1 = build_data self nz2"
    by (rule ext)
  then show ?thesis
    by (simp add: raw_table_def)
qed

text \<open>
  C3. With every noise factor equal to 1 (standard deviation forced to 0) the whole
  generation, generators followed by the adjustment pass, is a function of the analyzer
  (configuration and year range) alone: two runs whose draws for the rows of the table
  are all 1 return the same table, whatever else the two noise sources hold, and that
  table is the one computed with \<open>no_noise\<close>.
\<close>

theorem generate_deterministic_without_noise:
  assumes "\<forall>c. \<forall>i<nat (end_year self - start_year self + 1). nz1 c i = 1"
    and "\<forall>c. \<forall>i<nat (end_year self - start_year self + 1). nz2 c i = 1"
  shows "generate_financial_data self nz1 = generate_financial_data self nz2 \<and>
         generate_financial_data self nz1 = generate_financial_data self no_noise"
proof -
  have "raw_table self nz1 = raw_table self no_noise"
    using assms(1) by (intro raw_table_noise_cong) (simp add: no_noise_def)
  moreover have "raw_table self nz2 = raw_table self no_noise"
    using assms(2) by (intro raw_table_noise_cong) (simp add: no_noise_def)
  ultimately show ?thesis
    by (simp add: generate_financial_data_def)
qed

theorem generate_deterministic_without_noise_witness:
  "generate_financial_data
      \<lparr>commune = ''Bourail'', start_year = 2002, end_year = 2025,
       config = \<lparr>population_base = 5500, budget_base = 45, type_commune = ''rurale'',
                 specialites = [''agriculture'', ''elevage'', ''tourisme'', ''culture'']\<rparr>\<rparr>
      (\<lambda>c i. if i < 24 then 1 else 7) =
   generate_financial_data
      \<lparr>commune = ''Bourail'', start_year = 2002, end_year = 2025,
       config = \<lparr>population_base = 5500, budget_base = 45, type_commune = ''rurale'',
                 specialites = [''agriculture'', ''elevage'', ''tourisme'', ''culture'']\<rparr>\<rparr>
      (\<lambda>c i. if i < 30 then 1 else 0)"
  using generate_deterministic_without_noise [of
      "\<lparr>commune = ''Bourail'', start_year = 2002, end_year = 2025,
       config = \<lparr>population_base = 5500, budget_base = 45, type_commune = ''rurale'',
                 specialites = [''agriculture'', ''elevage'', ''tourisme'', ''culture'']\<rparr>\<rparr>"
      "\<lambda>c i. if i < 24 then 1 else 7" "\<lambda>c i. if i < 30 then 1 else 0"]
  by simp

section \<open>Non-negative values\<close>

lemma trend_multiplier_pos:
  assumes "c \<noteq> Annee"
  shows "0 < trend_multiplier y c"
  using assms
  by (cases c) (auto simp: trend_multiplier_def trends_row_def scale_def Let_def intro: add_pos_nonneg)

lemma trends_row_nonneg:
  assumes "\<forall>c. 0 \<le> r c"
  shows "0 \<le> trends_row r c"
proof (cases "c = Annee")
  case True
  then show ?thesis using assms by (simp add: trends_row_Annee)
next
  case False
  then show ?thesis
    using assms trend_multiplier_pos [OF False, of "r Annee"]
    by (simp add: trends_row_multiplies)
qed

lemma configs_positive:
  assumes "(n, c) \<in> set configs"
  shows "0 < population_base c \<and> 0 < budget_base c"
  using assms by (auto simp: configs_def)

lemma get_commune_config_positive:
  assumes "get_commune_config n = Inr c"
  shows "0 < population_base c \<and> 0 < budget_base c"
proof -
  have d: "(''default'', \<lparr>population_base = 3000, budget_base = 30, type_commune = ''rurale'',
           specialites = [''agriculture'', ''petit_commerce'', ''services_locaux'']\<rparr>) \<in> set configs"
    by (simp add: configs_def)
  show ?thesis
  proof (cases "map_of configs n")
    case None
    then have "c = \<lparr>population_base = 3000, budget_base = 30, type_commune = ''rurale'',
           specialites = [''agriculture'', ''petit_commerce'', ''services_locaux'']\<rparr>"
      using assms by (simp add: get_commune_config_def default_present)
    then show ?thesis by simp
  next
    case (Some c')
    then have "c = c'" using assms by (simp add: get_commune_config_def default_present)
    moreover have "(n, c') \<in> set configs" using Some by (rule map_of_SomeD)
    ultimately show ?thesis using configs_positive by blast
  qed
qed

lemma raw_nonneg:
  assumes "start_year self = 2002" and "end_year self = 2025"
    and "0 \<le> population_base (config self)" and "0 \<le> budget_base (config self)"
    and "i < 24"
  shows "0 \<le> cell (raw_table self no_noise) i c"
  using assms
  by (cases c)
     (auto simp: raw_table_cell build_data_def nth_enumerate_eq date_range_length date_range_nth
        Let_def no_noise_def simulate_population_def simulate_households_def
        simulate_total_revenue_def simulate_tax_revenue_def simulate_state_grants_def
        simulate_territorial_grants_def simulate_other_revenue_def simulate_total_expenses_def
        simulate_operating_expenses_def simulate_investment_expenses_def simulate_debt_charges_def
        simulate_staff_costs_def simulate_gross_savings_def simulate_total_debt_def
        simulate_debt_ratio_def simulate_tax_rate_def simulate_agriculture_investment_def
        simulate_tourism_investment_def simulate_transport_investment_def
        simulate_education_investment_def simulate_environment_investment_def
        simulate_culture_investment_def simulate_mining_investment_def
        intro!: mult_nonneg_nonneg)

lemma init_fields:
  assumes "init name = Inr self"
  shows "start_year self = 2002 \<and> end_year self = 2025 \<and> get_commune_config name = Inr (config self)"
  using assms by (auto simp: init_def split: sum.splits)

text \<open>
  C9. For every configuration that the resolver can return (and, more generally, for
  every configuration whose two base amounts are not negative), over the years 2002 to
  2025 and with every noise factor equal to 1, every column of every row is non-negative,
  both in the table before the adjustment pass and in the delivered table. In particular
  the debt-ratio factor \<open>1 - 0.012 * (year - 2010)\<close> stays positive up to 2025. Nothing in
  the generators or in the pass clamps a value: the bound comes from the factors alone.
\<close>

theorem generated_values_nonnegative:
  assumes "init name = Inr self \<or>
           (start_year self = 2002 \<and> end_year self = 2025 \<and>
            0 \<le> population_base (config self) \<and> 0 \<le> budget_base (config self))"
    and "i < length (generate_financial_data self no_noise)"
  shows "0 \<le> cell (raw_table self no_noise) i c \<and>
         0 \<le> cell (generate_financial_data self no_noise) i c \<and>
         2002 \<le> cell (generate_financial_data self no_noise) i Annee \<and>
         cell (generate_financial_data self no_noise) i Annee \<le> 2025"
proof -
  have f: "start_year self = 2002 \<and> end_year self = 2025 \<and>
           0 \<le> population_base (config self) \<and> 0 \<le> budget_base (config self)"
    using assms(1)
  proof
    assume a: "init name = Inr self"
    from init_fields [OF a] get_commune_config_positive [of name "config self"]
    show ?thesis by simp
  qed simp
  then have i: "i < 24"
    using assms(2) by (simp add: generate_length)
  have raw: "0 \<le> cell (raw_table self no_noise) i c" for c
    using f i by (intro raw_nonneg) simp_all
  have n: "i < nat (end_year self - start_year self + 1)"
    using f i by simp
  have fin: "0 \<le> cell (generate_financial_data self no_noise) i c"
    using raw by (simp add: generate_nth [OF n] trends_row_nonneg)
  have y: "cell (generate_financial_data self no_noise) i Annee = 2002 + real i"
    using f by (simp add: generate_nth [OF n] trends_row_Annee raw_table_Annee [OF n])
  show ?thesis
    using raw fin y i by simp
qed

theorem generated_values_nonnegative_witness:
  "0 \<le> cell (generate_financial_data
      \<lparr>commune = ''Thio'', start_year = 2002, end_year = 2025,
       config = \<lparr>population_base = 3000, budget_base = 30, type_commune = ''rurale'',
                 specialites = [''agriculture'', ''petit_commerce'', ''services_locaux'']\<rparr>\<rparr>
      no_noise) 23 Taux_Endettement"
proof -
  have a: "init ''Thio'' = Inr \<lparr>commune = ''Thio'', start_year = 2002, end_year = 2025,
       config = \<lparr>population_base = 3000, budget_base = 30, type_commune = ''rurale'',
                 specialites = [''agriculture'', ''petit_commerce'', ''services_locaux'']\<rparr>\<rparr>"
    by (simp add: init_def get_commune_config_def configs_def)
  have l: "23 < length (generate_financial_data \<lparr>commune = ''Thio'', start_year = 2002, end_year = 2025,
       config = \<lparr>population_base = 3000, budget_base = 30, type_commune = ''rurale'',
                 specialites = [''agriculture'', ''petit_commerce'', ''services_locaux'']\<rparr>\<rparr> no_noise)"
    by (simp add: generate_length)
  show ?thesis
    using generated_values_nonnegative [OF disjI1 [OF a] l] by blast
qed

lemma negative_draw_not_clamped:
  assumes "start_year self = 2002" and "end_year self = 2025" and "0 < budget_base (config self)"
  shows "cell (generate_financial_data self (\<lambda>c i. - 1)) 0 Impots_Locaux < 0"
  using assms
  by (simp add: generate_nth trends_row_frame raw_table_cell build_data_def simulate_tax_revenue_def
      nth_enumerate_eq date_range_length Let_def)

end
